theory Spec2Isabelle
  imports Main "HOL-Library.Word"
begin

unbundle bit_operations_syntax

section \<open>The extension \<open>ext/ieee_fpu_control.c\<close>\<close>

text \<open>
  The file binds eight C functions into the Ruby module \<open>IEEE_FPU\<close>. Each of them
  unboxes its argument with \<open>NUM2UINT\<close> (when it has one), talks to the floating-point
  unit, and boxes an \<open>unsigned int\<close> with \<open>UINT2NUM\<close>. The boxing macros belong to the
  Ruby interpreter; the embedding starts at the \<open>unsigned int\<close> that \<open>NUM2UINT\<close> yields
  and ends at the \<open>unsigned int\<close> handed to \<open>UINT2NUM\<close>. A \<open>VALUE\<close> that \<open>NUM2UINT\<close>
  does not convert never reaches the statements modelled here: in each setter the
  conversion comes before the first write. An \<open>unsigned int\<close> is a 32-bit
  word; a C \<open>int\<close> is carried as the same bit pattern, which is what the conversions
  between the two leave unchanged.

  Every operation is a function from the state of the floating-point unit to the pair of
  the returned value and the state afterwards.
\<close>

type_synonym cuint = "32 word"

section \<open>Backend B: the control word of \<open>fpu_control.h\<close>\<close>

text \<open>
  \<open>fpu_control.h\<close> is a header of the platform. It declares the type \<open>fpu_control_t\<close>
  of the control word, the seven constants below and the two access macros. The
  constants are the fields of a record over the type \<open>'c\<close> of the control word, which
  every operation takes as its first argument at \<open>'c = 'w word\<close>, a word of the width
  \<open>'w\<close> of \<open>fpu_control_t\<close>.
\<close>

record 'c fpu_control_h =
  FPU_RC_NEAREST :: 'c
  FPU_RC_DOWN :: 'c
  FPU_RC_UP :: 'c
  FPU_RC_ZERO :: 'c
  FPU_EXTENDED :: 'c
  FPU_DOUBLE :: 'c
  FPU_SINGLE :: 'c

text \<open>
  Modelled from the spec: the macro \<open>_FPU_GETCW(c)\<close> of \<open>fpu_control.h\<close>, which is not
  part of the repository. The spec says that it "reads the full control word"; the state
  of backend B is that word.
\<close>

definition FPU_GETCW :: "'w::len word \<Rightarrow> 'w word" where
  "FPU_GETCW cw = cw"

text \<open>
  Modelled from the spec: the macro \<open>_FPU_SETCW(c)\<close> of \<open>fpu_control.h\<close>, which is not
  part of the repository. The spec says that it "writes the word back in full"; the result
  is the control word afterwards.
\<close>

definition FPU_SETCW :: "'w::len word \<Rightarrow> 'w word \<Rightarrow> 'w word" where
  "FPU_SETCW c cw = c"

text \<open>The two local masks, as the four functions compute them.\<close>

definition round_mask :: "'w::len word fpu_control_h \<Rightarrow> 'w word" where
  "round_mask k = (FPU_RC_NEAREST k OR FPU_RC_DOWN k OR FPU_RC_UP k OR FPU_RC_ZERO k)"

definition prec_mask :: "'w::len word fpu_control_h \<Rightarrow> 'w word" where
  "prec_mask k = (FPU_EXTENDED k OR FPU_DOUBLE k OR FPU_SINGLE k)"

text \<open>
  \<open>c & mask\<close> is passed to \<open>UINT2NUM\<close>, hence converted to \<open>unsigned int\<close>: \<open>ucast\<close>.
  \<open>new_c |= NUM2UINT(mode)\<close> computes the disjunction and stores it in a variable of type
  \<open>fpu_control_t\<close>, which keeps the bits of \<open>mode\<close> that the control word has: \<open>ucast\<close>
  again, in the other direction.
\<close>

definition mIEEE_FPU_fpu_getround ::
  "'w::len word fpu_control_h \<Rightarrow> 'w word \<Rightarrow> cuint \<times> 'w word" where
  "mIEEE_FPU_fpu_getround k cw =
     (let mask = round_mask k;
          c = FPU_GETCW cw
      in (ucast (c AND mask), cw))"

definition mIEEE_FPU_fpu_setround ::
  "'w::len word fpu_control_h \<Rightarrow> cuint \<Rightarrow> 'w word \<Rightarrow> cuint \<times> 'w word" where
  "mIEEE_FPU_fpu_setround k mode cw =
     (let mask = round_mask k;
          c = FPU_GETCW cw;
          new_c = c;
          new_c = new_c AND NOT mask;
          new_c = new_c OR ucast mode;
          cw = FPU_SETCW new_c cw
      in (ucast (c AND mask), cw))"

definition mIEEE_FPU_fpu_getprec ::
  "'w::len word fpu_control_h \<Rightarrow> 'w word \<Rightarrow> cuint \<times> 'w word" where
  "mIEEE_FPU_fpu_getprec k cw =
     (let mask = prec_mask k;
          c = FPU_GETCW cw
      in (ucast (c AND mask), cw))"

definition mIEEE_FPU_fpu_setprec ::
  "'w::len word fpu_control_h \<Rightarrow> cuint \<Rightarrow> 'w word \<Rightarrow> cuint \<times> 'w word" where
  "mIEEE_FPU_fpu_setprec k prec cw =
     (let mask = prec_mask k;
          c = FPU_GETCW cw;
          new_c = c;
          new_c = new_c AND NOT mask;
          new_c = new_c OR ucast prec;
          cw = FPU_SETCW new_c cw
      in (ucast (c AND mask), cw))"

text \<open>
  The constants as \<open>Init_ieee_fpu_control\<close> exports them to Ruby, \<open>UINT2NUM(_FPU_...)\<close>:
  the values a caller passes back as a mode.
\<close>

definition fpu_round_consts :: "'w::len word fpu_control_h \<Rightarrow> cuint list" where
  "fpu_round_consts k =
     [ucast (FPU_RC_NEAREST k), ucast (FPU_RC_DOWN k), ucast (FPU_RC_UP k),
      ucast (FPU_RC_ZERO k)]"

definition fpu_prec_consts :: "'w::len word fpu_control_h \<Rightarrow> cuint list" where
  "fpu_prec_consts k =
     [ucast (FPU_EXTENDED k), ucast (FPU_DOUBLE k), ucast (FPU_SINGLE k)]"

text \<open>
  The header of the x86 family, as the GNU C library has it: a 16-bit control word with
  the rounding control in bits 10 and 11 and the precision control in bits 8 and 9. It
  is the concrete platform of the examples below.
\<close>

definition x86_fpu_control_h :: "16 word fpu_control_h" where
  "x86_fpu_control_h =
     \<lparr>FPU_RC_NEAREST = 0x0, FPU_RC_DOWN = 0x400, FPU_RC_UP = 0x800, FPU_RC_ZERO = 0xC00,
      FPU_EXTENDED = 0x300, FPU_DOUBLE = 0x200, FPU_SINGLE = 0x0\<rparr>"

section \<open>Backend A: the environment of \<open>fenv.h\<close>\<close>

text \<open>
  \<open>fenv.h\<close> is a header of the platform's C library. Of it the file uses the two
  functions \<open>fegetround\<close> and \<open>fesetround\<close> and the four rounding-direction macros. They
  are the fields of a record over the type \<open>'e\<close> of the floating-point environment, which
  every operation of backend A takes as its first argument. \<open>fegetround\<close> is a query;
  \<open>fesetround\<close> returns a status, which the file never reads, and the environment
  afterwards.
\<close>

record 'e fenv_h =
  fegetround :: "'e \<Rightarrow> cuint"
  fesetround :: "cuint \<Rightarrow> 'e \<Rightarrow> cuint \<times> 'e"
  FE_DOWNWARD :: cuint
  FE_TONEAREST :: cuint
  FE_TOWARDZERO :: cuint
  FE_UPWARD :: cuint

definition mIEEE_FPU_fegetround :: "'e fenv_h \<Rightarrow> 'e \<Rightarrow> cuint \<times> 'e" where
  "mIEEE_FPU_fegetround P env = (fegetround P env, env)"

definition mIEEE_FPU_fesetround :: "'e fenv_h \<Rightarrow> cuint \<Rightarrow> 'e \<Rightarrow> cuint \<times> 'e" where
  "mIEEE_FPU_fesetround P mode env =
     (let env = snd (fesetround P mode env)
      in (fegetround P env, env))"

text \<open>
  The constants as \<open>Init_ieee_fpu_control\<close> exports them to Ruby, \<open>UINT2NUM(FE_...)\<close>,
  in the order of the source: the enumerated valid set of backend A.
\<close>

definition fe_round_consts :: "'e fenv_h \<Rightarrow> cuint list" where
  "fe_round_consts P = [FE_DOWNWARD P, FE_TONEAREST P, FE_TOWARDZERO P, FE_UPWARD P]"

text \<open>
  \<open>mIEEE_FPU_fegetprec\<close> and \<open>mIEEE_FPU_fesetprec\<close>, compiled under \<open>HAVE_FESETPREC\<close>,
  are the same two bodies over \<open>fegetprec\<close> and \<open>fesetprec\<close>.
\<close>

record 'e fenv_prec_h =
  fegetprec :: "'e \<Rightarrow> cuint"
  fesetprec :: "cuint \<Rightarrow> 'e \<Rightarrow> cuint \<times> 'e"

definition mIEEE_FPU_fegetprec :: "'e fenv_prec_h \<Rightarrow> 'e \<Rightarrow> cuint \<times> 'e" where
  "mIEEE_FPU_fegetprec P env = (fegetprec P env, env)"

definition mIEEE_FPU_fesetprec :: "'e fenv_prec_h \<Rightarrow> cuint \<Rightarrow> 'e \<Rightarrow> cuint \<times> 'e" where
  "mIEEE_FPU_fesetprec P prec env =
     (let env = snd (fesetprec P prec env)
      in (fegetprec P env, env))"

text \<open>
  The floating-point environment as far as the file observes it: the active rounding
  mode.
\<close>

record fenv =
  rounding :: cuint

text \<open>
  Modelled from the spec: the functions \<open>fegetround\<close> and \<open>fesetround\<close> of the C library,
  which the repository calls and does not contain. Following the spec, \<open>fegetround\<close>
  "queries and returns the currently active rounding mode with no side effects";
  \<open>fesetround\<close> "installs \<open>mode\<close> as the active rounding mode" when \<open>mode\<close> is one of
  the enumerated set, and for any other value "the call is a no-op and the subsequent
  query reflects the unchanged state". The status is 0 when the mode was installed. The
  four arguments are the values of the macros \<open>FE_DOWNWARD\<close>, \<open>FE_TONEAREST\<close>,
  \<open>FE_TOWARDZERO\<close> and \<open>FE_UPWARD\<close>.
\<close>

definition libc_fenv_h :: "cuint \<Rightarrow> cuint \<Rightarrow> cuint \<Rightarrow> cuint \<Rightarrow> fenv fenv_h" where
  "libc_fenv_h down nearest zero up =
     \<lparr>fegetround = (\<lambda>env. rounding env),
      fesetround = (\<lambda>mode env.
        if mode \<in> set [down, nearest, zero, up] then (0, env\<lparr>rounding := mode\<rparr>)
        else (1, env)),
      FE_DOWNWARD = down, FE_TONEAREST = nearest, FE_TOWARDZERO = zero, FE_UPWARD = up\<rparr>"

text \<open>The C library with the values the four macros have on the x86 family.\<close>

definition x86_fenv_h :: "fenv fenv_h" where
  "x86_fenv_h = libc_fenv_h 0x400 0x0 0xC00 0x800"

section \<open>Helper facts\<close>

lemmas fpu_defs =
  mIEEE_FPU_fpu_getround_def mIEEE_FPU_fpu_setround_def
  mIEEE_FPU_fpu_getprec_def mIEEE_FPU_fpu_setprec_def
  FPU_GETCW_def FPU_SETCW_def Let_def

lemmas fe_defs =
  mIEEE_FPU_fegetround_def mIEEE_FPU_fesetround_def Let_def

lemma round_mask_x86: "round_mask x86_fpu_control_h = 0xC00"
  by (simp add: round_mask_def x86_fpu_control_h_def)

lemma prec_mask_x86: "prec_mask x86_fpu_control_h = 0x300"
  by (simp add: prec_mask_def x86_fpu_control_h_def)

text \<open>An argument without a bit outside a mask has each of its bits in the mask.\<close>

lemma within_maskD:
  fixes m :: cuint and mask :: "'w::len word"
  assumes "m AND NOT (ucast mask) = 0" and "bit m n"
  shows "bit mask n"
proof -
  from assms(2) have n: "n < 32"
    by (auto dest: bit_imp_le_length)
  from assms(1) have "\<not> bit (m AND NOT (ucast mask :: cuint)) n"
    by simp
  with assms(2) n show ?thesis
    by (simp add: bit_simps)
qed

text \<open>The exported constants have no bit outside their mask.\<close>

lemma round_consts_within_mask:
  "m \<in> set (fpu_round_consts k) \<Longrightarrow> m AND NOT (ucast (round_mask k)) = 0"
  by (auto simp add: fpu_round_consts_def round_mask_def bit_eq_iff bit_simps
      dest: bit_imp_le_length)

lemma prec_consts_within_mask:
  "p \<in> set (fpu_prec_consts k) \<Longrightarrow> p AND NOT (ucast (prec_mask k)) = 0"
  by (auto simp add: fpu_prec_consts_def prec_mask_def bit_eq_iff bit_simps
      dest: bit_imp_le_length)

text \<open>
  The frame of the two writes: with an argument inside the mask, every bit of the control
  word outside the mask keeps its value.
\<close>

lemma setround_frame:
  assumes "m AND NOT (ucast (round_mask k)) = 0"
  shows "snd (mIEEE_FPU_fpu_setround k m c) AND NOT (round_mask k) = c AND NOT (round_mask k)"
proof (rule bit_eqI)
  fix n
  have "bit m n \<Longrightarrow> bit (round_mask k) n"
    using assms by (rule within_maskD)
  then show "bit (snd (mIEEE_FPU_fpu_setround k m c) AND NOT (round_mask k)) n
     = bit (c AND NOT (round_mask k)) n"
    by (auto simp add: fpu_defs bit_simps)
qed

lemma setprec_frame:
  assumes "p AND NOT (ucast (prec_mask k)) = 0"
  shows "snd (mIEEE_FPU_fpu_setprec k p c) AND NOT (prec_mask k) = c AND NOT (prec_mask k)"
proof (rule bit_eqI)
  fix n
  have "bit p n \<Longrightarrow> bit (prec_mask k) n"
    using assms by (rule within_maskD)
  then show "bit (snd (mIEEE_FPU_fpu_setprec k p c) AND NOT (prec_mask k)) n
     = bit (c AND NOT (prec_mask k)) n"
    by (auto simp add: fpu_defs bit_simps)
qed

text \<open>A getter reads only the bits of its mask, so it cannot tell apart two control
  words that agree there.\<close>

lemma getprec_cong:
  assumes "round_mask k AND prec_mask k = 0"
    and "c' AND NOT (round_mask k) = c AND NOT (round_mask k)"
  shows "fst (mIEEE_FPU_fpu_getprec k c') = fst (mIEEE_FPU_fpu_getprec k c)"
proof -
  have "c' AND prec_mask k = c AND prec_mask k"
  proof (rule bit_eqI)
    fix n
    from assms(1) have "\<not> bit (round_mask k AND prec_mask k) n"
      by simp
    moreover from assms(2)
    have "bit (c' AND NOT (round_mask k)) n = bit (c AND NOT (round_mask k)) n"
      by simp
    ultimately show "bit (c' AND prec_mask k) n = bit (c AND prec_mask k) n"
      by (auto simp add: bit_simps dest: bit_imp_le_length)
  qed
  then show ?thesis
    by (simp add: fpu_defs)
qed

lemma getround_cong:
  assumes "round_mask k AND prec_mask k = 0"
    and "c' AND NOT (prec_mask k) = c AND NOT (prec_mask k)"
  shows "fst (mIEEE_FPU_fpu_getround k c') = fst (mIEEE_FPU_fpu_getround k c)"
proof -
  have "c' AND round_mask k = c AND round_mask k"
  proof (rule bit_eqI)
    fix n
    from assms(1) have "\<not> bit (round_mask k AND prec_mask k) n"
      by simp
    moreover from assms(2)
    have "bit (c' AND NOT (prec_mask k)) n = bit (c AND NOT (prec_mask k)) n"
      by simp
    ultimately show "bit (c' AND round_mask k) n = bit (c AND round_mask k) n"
      by (auto simp add: bit_simps dest: bit_imp_le_length)
  qed
  then show ?thesis
    by (simp add: fpu_defs)
qed

text \<open>Writing the same mode again leaves the control word as the first write left it.\<close>

lemma setround_state_idem:
  "snd (mIEEE_FPU_fpu_setround k m (snd (mIEEE_FPU_fpu_setround k m c)))
     = snd (mIEEE_FPU_fpu_setround k m c)"
  by (auto simp add: fpu_defs bit_eq_iff bit_simps)

text \<open>After \<open>fpu_setround(m)\<close> with an exported constant, the next call returns \<open>m\<close>.\<close>

lemma setround_second_result:
  "m \<in> set (fpu_round_consts k) \<Longrightarrow>
     fst (mIEEE_FPU_fpu_setround k m (snd (mIEEE_FPU_fpu_setround k m c))) = m"
  by (auto simp add: fpu_round_consts_def round_mask_def fpu_defs bit_eq_iff bit_simps
      dest: bit_imp_le_length)

text \<open>The model of the C library installs each of the four modes and rejects the rest.\<close>

lemma libc_fesetround_valid:
  "m \<in> set (fe_round_consts (libc_fenv_h d n z u)) \<Longrightarrow>
     mIEEE_FPU_fesetround (libc_fenv_h d n z u) m env = (m, env\<lparr>rounding := m\<rparr>)"
  by (auto simp add: fe_defs libc_fenv_h_def fe_round_consts_def)

lemma libc_fesetround_invalid:
  "m \<notin> set (fe_round_consts (libc_fenv_h d n z u)) \<Longrightarrow>
     mIEEE_FPU_fesetround (libc_fenv_h d n z u) m env = (rounding env, env)"
  by (auto simp add: fe_defs libc_fenv_h_def fe_round_consts_def)

section \<open>Backend B: the claims\<close>

text \<open>
  C1. \<open>fpu_setround\<close>: from every control word \<open>c\<close> and for every argument \<open>m\<close>, the word
  written back is \<open>(c AND NOT roundingMask) OR m\<close> (\<open>m\<close> at the width of the control
  word), and the value returned is \<open>c AND roundingMask\<close>, the rounding bits before the
  write, which is what \<open>fpu_getround\<close> returns on the state before the call.
\<close>

theorem fpu_setround_spec:
  "mIEEE_FPU_fpu_setround k m c =
     (ucast (c AND round_mask k), (c AND NOT (round_mask k)) OR ucast m)
   \<and> fst (mIEEE_FPU_fpu_setround k m c) = fst (mIEEE_FPU_fpu_getround k c)"
  by (simp add: fpu_defs)

text \<open>
  The value returned is not the one after the write: from the x86 default control word
  \<open>0x037F\<close> (round to nearest), \<open>fpu_setround(FPU_RC_UP)\<close> returns 0, and the rounding
  bits afterwards are \<open>0x800\<close>.
\<close>

lemma fpu_setround_returns_previous:
  "fst (mIEEE_FPU_fpu_setround x86_fpu_control_h 0x800 0x037F) = 0
   \<and> fst (mIEEE_FPU_fpu_getround x86_fpu_control_h
        (snd (mIEEE_FPU_fpu_setround x86_fpu_control_h 0x800 0x037F))) = 0x800"
  by (simp add: fpu_defs round_mask_x86)

text \<open>
  The frame in its general form: on a header whose rounding mask and precision mask have
  no bit in common, an argument without a bit outside the mask of its setter leaves
  every bit outside that mask, and the result of the other getter, as they were.
\<close>

lemma fpu_set_within_mask_frame:
  assumes "round_mask k AND prec_mask k = 0"
  shows "(m AND NOT (ucast (round_mask k)) = 0 \<longrightarrow>
            snd (mIEEE_FPU_fpu_setround k m c) AND NOT (round_mask k) = c AND NOT (round_mask k)
          \<and> fst (mIEEE_FPU_fpu_getprec k (snd (mIEEE_FPU_fpu_setround k m c)))
              = fst (mIEEE_FPU_fpu_getprec k c))
       \<and> (p AND NOT (ucast (prec_mask k)) = 0 \<longrightarrow>
            snd (mIEEE_FPU_fpu_setprec k p c) AND NOT (prec_mask k) = c AND NOT (prec_mask k)
          \<and> fst (mIEEE_FPU_fpu_getround k (snd (mIEEE_FPU_fpu_setprec k p c)))
              = fst (mIEEE_FPU_fpu_getround k c))"
  using assms setround_frame [of m k c] setprec_frame [of p k c]
    getprec_cong [of k "snd (mIEEE_FPU_fpu_setround k m c)" c]
    getround_cong [of k "snd (mIEEE_FPU_fpu_setprec k p c)" c]
  by blast

text \<open>
  C2. On a header whose rounding mask and precision mask have no bit in common, for
  every control word \<open>c\<close> and every rounding mode \<open>m\<close> (one of the four exported
  rounding constants), \<open>fpu_setround(m)\<close> preserves every bit of the control word outside
  the rounding mask and does not change the result of \<open>fpu_getprec\<close>; symmetrically,
  for every precision mode \<open>p\<close> (one of the three exported precision constants),
  \<open>fpu_setprec(p)\<close> preserves every bit outside the precision mask and does not change
  the result of \<open>fpu_getround\<close>.
\<close>

theorem fpu_set_noninterference:
  assumes "round_mask k AND prec_mask k = 0"
  shows "(m \<in> set (fpu_round_consts k) \<longrightarrow>
            snd (mIEEE_FPU_fpu_setround k m c) AND NOT (round_mask k) = c AND NOT (round_mask k)
          \<and> fst (mIEEE_FPU_fpu_getprec k (snd (mIEEE_FPU_fpu_setround k m c)))
              = fst (mIEEE_FPU_fpu_getprec k c))
       \<and> (p \<in> set (fpu_prec_consts k) \<longrightarrow>
            snd (mIEEE_FPU_fpu_setprec k p c) AND NOT (prec_mask k) = c AND NOT (prec_mask k)
          \<and> fst (mIEEE_FPU_fpu_getround k (snd (mIEEE_FPU_fpu_setprec k p c)))
              = fst (mIEEE_FPU_fpu_getround k c))"
proof (intro conjI impI)
  assume "m \<in> set (fpu_round_consts k)"
  then have m: "m AND NOT (ucast (round_mask k)) = 0"
    by (rule round_consts_within_mask)
  then show frame: "snd (mIEEE_FPU_fpu_setround k m c) AND NOT (round_mask k)
      = c AND NOT (round_mask k)"
    by (rule setround_frame)
  with assms show "fst (mIEEE_FPU_fpu_getprec k (snd (mIEEE_FPU_fpu_setround k m c)))
      = fst (mIEEE_FPU_fpu_getprec k c)"
    by (rule getprec_cong)
next
  assume "p \<in> set (fpu_prec_consts k)"
  then have p: "p AND NOT (ucast (prec_mask k)) = 0"
    by (rule prec_consts_within_mask)
  then show frame: "snd (mIEEE_FPU_fpu_setprec k p c) AND NOT (prec_mask k)
      = c AND NOT (prec_mask k)"
    by (rule setprec_frame)
  with assms show "fst (mIEEE_FPU_fpu_getround k (snd (mIEEE_FPU_fpu_setprec k p c)))
      = fst (mIEEE_FPU_fpu_getround k c)"
    by (rule getround_cong)
qed

text \<open>
  On the x86 header, from the control word \<open>0x027F\<close> (double precision, round to
  nearest): each of the four rounding modes leaves \<open>fpu_getprec\<close> at \<open>0x200\<close>. From
  \<open>0x0B7F\<close> (extended precision, round up): each of the three precision modes leaves
  \<open>fpu_getround\<close> at \<open>0x800\<close>.
\<close>

theorem fpu_set_noninterference_witness:
  "round_mask x86_fpu_control_h AND prec_mask x86_fpu_control_h = 0
   \<and> set (fpu_round_consts x86_fpu_control_h) = {0x0, 0x400, 0x800, 0xC00}
   \<and> set (fpu_prec_consts x86_fpu_control_h) = {0x300, 0x200, 0x0}
   \<and> fst (mIEEE_FPU_fpu_getprec x86_fpu_control_h 0x027F) = 0x200
   \<and> fst (mIEEE_FPU_fpu_getprec x86_fpu_control_h
        (snd (mIEEE_FPU_fpu_setround x86_fpu_control_h 0x0 0x027F))) = 0x200
   \<and> fst (mIEEE_FPU_fpu_getprec x86_fpu_control_h
        (snd (mIEEE_FPU_fpu_setround x86_fpu_control_h 0x400 0x027F))) = 0x200
   \<and> fst (mIEEE_FPU_fpu_getprec x86_fpu_control_h
        (snd (mIEEE_FPU_fpu_setround x86_fpu_control_h 0x800 0x027F))) = 0x200
   \<and> fst (mIEEE_FPU_fpu_getprec x86_fpu_control_h
        (snd (mIEEE_FPU_fpu_setround x86_fpu_control_h 0xC00 0x027F))) = 0x200
   \<and> fst (mIEEE_FPU_fpu_getround x86_fpu_control_h 0x0B7F) = 0x800
   \<and> fst (mIEEE_FPU_fpu_getround x86_fpu_control_h
        (snd (mIEEE_FPU_fpu_setprec x86_fpu_control_h 0x300 0x0B7F))) = 0x800
   \<and> fst (mIEEE_FPU_fpu_getround x86_fpu_control_h
        (snd (mIEEE_FPU_fpu_setprec x86_fpu_control_h 0x200 0x0B7F))) = 0x800
   \<and> fst (mIEEE_FPU_fpu_getround x86_fpu_control_h
        (snd (mIEEE_FPU_fpu_setprec x86_fpu_control_h 0x0 0x0B7F))) = 0x800"
proof -
  have d: "round_mask x86_fpu_control_h AND prec_mask x86_fpu_control_h = 0"
    by (simp add: round_mask_x86 prec_mask_x86)
  have rs: "set (fpu_round_consts x86_fpu_control_h) = {0x0, 0x400, 0x800, 0xC00}"
    by (simp add: fpu_round_consts_def x86_fpu_control_h_def)
  have ps: "set (fpu_prec_consts x86_fpu_control_h) = {0x300, 0x200, 0x0}"
    by (simp add: fpu_prec_consts_def x86_fpu_control_h_def)
  have r0: "0x0 \<in> set (fpu_round_consts x86_fpu_control_h)"
    and r1: "0x400 \<in> set (fpu_round_consts x86_fpu_control_h)"
    and r2: "0x800 \<in> set (fpu_round_consts x86_fpu_control_h)"
    and r3: "0xC00 \<in> set (fpu_round_consts x86_fpu_control_h)"
    by (simp_all add: rs)
  have p0: "0x300 \<in> set (fpu_prec_consts x86_fpu_control_h)"
    and p1: "0x200 \<in> set (fpu_prec_consts x86_fpu_control_h)"
    and p2: "0x0 \<in> set (fpu_prec_consts x86_fpu_control_h)"
    by (simp_all add: ps)
  have gp: "fst (mIEEE_FPU_fpu_getprec x86_fpu_control_h 0x027F) = 0x200"
    by (simp add: fpu_defs prec_mask_x86)
  have gr: "fst (mIEEE_FPU_fpu_getround x86_fpu_control_h 0x0B7F) = 0x800"
    by (simp add: fpu_defs round_mask_x86)
  note ni = fpu_set_noninterference [OF d]
  have "fst (mIEEE_FPU_fpu_getprec x86_fpu_control_h
        (snd (mIEEE_FPU_fpu_setround x86_fpu_control_h 0x0 0x027F))) = 0x200"
    using ni [of "0x0" "0x027F" "0x0"] r0 gp by simp
  moreover have "fst (mIEEE_FPU_fpu_getprec x86_fpu_control_h
        (snd (mIEEE_FPU_fpu_setround x86_fpu_control_h 0x400 0x027F))) = 0x200"
    using ni [of "0x400" "0x027F" "0x0"] r1 gp by simp
  moreover have "fst (mIEEE_FPU_fpu_getprec x86_fpu_control_h
        (snd (mIEEE_FPU_fpu_setround x86_fpu_control_h 0x800 0x027F))) = 0x200"
    using ni [of "0x800" "0x027F" "0x0"] r2 gp by simp
  moreover have "fst (mIEEE_FPU_fpu_getprec x86_fpu_control_h
        (snd (mIEEE_FPU_fpu_setround x86_fpu_control_h 0xC00 0x027F))) = 0x200"
    using ni [of "0xC00" "0x027F" "0x0"] r3 gp by simp
  moreover have "fst (mIEEE_FPU_fpu_getround x86_fpu_control_h
        (snd (mIEEE_FPU_fpu_setprec x86_fpu_control_h 0x300 0x0B7F))) = 0x800"
    using ni [of "0x0" "0x0B7F" "0x300"] p0 gr by simp
  moreover have "fst (mIEEE_FPU_fpu_getround x86_fpu_control_h
        (snd (mIEEE_FPU_fpu_setprec x86_fpu_control_h 0x200 0x0B7F))) = 0x800"
    using ni [of "0x0" "0x0B7F" "0x200"] p1 gr by simp
  moreover have "fst (mIEEE_FPU_fpu_getround x86_fpu_control_h
        (snd (mIEEE_FPU_fpu_setprec x86_fpu_control_h 0x0 0x0B7F))) = 0x800"
    using ni [of "0x0" "0x0B7F" "0x0"] p2 gr by simp
  ultimately show ?thesis
    using d rs ps gp gr by blast
qed

text \<open>
  The modes are what the statement is about. An argument that is no rounding mode is
  not covered: \<open>0x200\<close> is the precision constant \<open>FPU_DOUBLE\<close>, and passed to
  \<open>fpu_setround\<close> from the control word \<open>0x007F\<close> (single precision) it is written
  into the precision field.
\<close>

lemma fpu_setround_foreign_argument:
  "0x200 \<notin> set (fpu_round_consts x86_fpu_control_h)
   \<and> 0x200 \<in> set (fpu_prec_consts x86_fpu_control_h)
   \<and> fst (mIEEE_FPU_fpu_getprec x86_fpu_control_h 0x007F) = 0
   \<and> fst (mIEEE_FPU_fpu_getprec x86_fpu_control_h
        (snd (mIEEE_FPU_fpu_setround x86_fpu_control_h 0x200 0x007F))) = 0x200"
proof -
  have "0x200 \<notin> set (fpu_round_consts x86_fpu_control_h)"
    and "0x200 \<in> set (fpu_prec_consts x86_fpu_control_h)"
    by (simp_all add: fpu_round_consts_def fpu_prec_consts_def x86_fpu_control_h_def)
  moreover have "fst (mIEEE_FPU_fpu_getprec x86_fpu_control_h 0x007F) = 0"
    and "fst (mIEEE_FPU_fpu_getprec x86_fpu_control_h
        (snd (mIEEE_FPU_fpu_setround x86_fpu_control_h 0x200 0x007F))) = 0x200"
    by (simp_all add: fpu_defs round_mask_x86 prec_mask_x86)
  ultimately show ?thesis
    by blast
qed

text \<open>
  C5. For every control word, the value returned by \<open>fpu_getround\<close> has no bit outside
  the rounding mask, and the value returned by \<open>fpu_getprec\<close> has no bit outside the
  precision mask. Hence \<open>fpu_getround\<close> returns no bit of any field \<open>f\<close> of the control
  word that is disjoint from the rounding mask, and \<open>fpu_getprec\<close> no bit of any field
  \<open>g\<close> disjoint from the precision mask.
\<close>

theorem fpu_get_masked:
  "fst (mIEEE_FPU_fpu_getround k c) AND NOT (ucast (round_mask k)) = 0
   \<and> fst (mIEEE_FPU_fpu_getprec k c) AND NOT (ucast (prec_mask k)) = 0
   \<and> (f AND round_mask k = 0 \<longrightarrow> fst (mIEEE_FPU_fpu_getround k c) AND ucast f = 0)
   \<and> (g AND prec_mask k = 0 \<longrightarrow> fst (mIEEE_FPU_fpu_getprec k c) AND ucast g = 0)"
  by (auto simp add: fpu_defs bit_eq_iff bit_simps dest: bit_imp_le_length)

theorem fpu_get_masked_witness:
  "prec_mask x86_fpu_control_h AND round_mask x86_fpu_control_h = 0
   \<and> round_mask x86_fpu_control_h AND prec_mask x86_fpu_control_h = 0
   \<and> fst (mIEEE_FPU_fpu_getround x86_fpu_control_h 0xFFFF) = 0xC00
   \<and> fst (mIEEE_FPU_fpu_getprec x86_fpu_control_h 0xFFFF) = 0x300
   \<and> fst (mIEEE_FPU_fpu_getround x86_fpu_control_h 0xFFFF)
        AND ucast (prec_mask x86_fpu_control_h) = 0
   \<and> fst (mIEEE_FPU_fpu_getprec x86_fpu_control_h 0xFFFF)
        AND ucast (round_mask x86_fpu_control_h) = 0"
proof -
  have f: "prec_mask x86_fpu_control_h AND round_mask x86_fpu_control_h = 0"
    and g: "round_mask x86_fpu_control_h AND prec_mask x86_fpu_control_h = 0"
    by (simp_all add: round_mask_x86 prec_mask_x86)
  have r: "fst (mIEEE_FPU_fpu_getround x86_fpu_control_h 0xFFFF) = 0xC00"
    and q: "fst (mIEEE_FPU_fpu_getprec x86_fpu_control_h 0xFFFF) = 0x300"
    by (simp_all add: fpu_defs round_mask_x86 prec_mask_x86)
  from fpu_get_masked [of x86_fpu_control_h "0xFFFF" "prec_mask x86_fpu_control_h"
      "round_mask x86_fpu_control_h"] f g r q
  show ?thesis
    by blast
qed

text \<open>
  C6. The setters do not mask their argument: every bit of the argument that lies outside
  the mask (at a position the control word has) is set in the control word written,
  whatever the control word was before. \<open>n\<close> is the position of the bit.
\<close>

theorem fpu_set_leaks:
  fixes c :: "'w::len word"
  shows "(bit (ucast m :: 'w word) n \<and> \<not> bit (round_mask k) n \<longrightarrow>
            bit (snd (mIEEE_FPU_fpu_setround k m c)) n)
       \<and> (bit (ucast p :: 'w word) n \<and> \<not> bit (prec_mask k) n \<longrightarrow>
            bit (snd (mIEEE_FPU_fpu_setprec k p c)) n)"
  by (simp add: fpu_defs bit_simps)

text \<open>
  On the x86 header: \<open>fpu_setround(0x200)\<close> sets bit 9, a bit of the precision field,
  and \<open>fpu_setprec(0x400)\<close> sets bit 10, a bit of the rounding field; both bits were clear
  in the control word \<open>0x007F\<close> before the call.
\<close>

theorem fpu_set_leaks_witness:
  "bit (ucast (0x200 :: cuint) :: 16 word) 9
   \<and> \<not> bit (round_mask x86_fpu_control_h) 9
   \<and> \<not> bit (0x007F :: 16 word) 9
   \<and> bit (snd (mIEEE_FPU_fpu_setround x86_fpu_control_h 0x200 0x007F)) 9
   \<and> bit (ucast (0x400 :: cuint) :: 16 word) 10
   \<and> \<not> bit (prec_mask x86_fpu_control_h) 10
   \<and> \<not> bit (0x007F :: 16 word) 10
   \<and> bit (snd (mIEEE_FPU_fpu_setprec x86_fpu_control_h 0x400 0x007F)) 10"
proof -
  have m: "bit (ucast (0x200 :: cuint) :: 16 word) 9"
    and p: "bit (ucast (0x400 :: cuint) :: 16 word) 10"
    by (simp_all add: bit_simps)
  have r: "\<not> bit (round_mask x86_fpu_control_h) 9"
    and q: "\<not> bit (prec_mask x86_fpu_control_h) 10"
    by (simp_all add: round_mask_x86 prec_mask_x86)
  have c: "\<not> bit (0x007F :: 16 word) 9" "\<not> bit (0x007F :: 16 word) 10"
    by simp_all
  from fpu_set_leaks [of "0x200" 9 x86_fpu_control_h "0x007F" "0x400"] m r
  have "bit (snd (mIEEE_FPU_fpu_setround x86_fpu_control_h 0x200 0x007F)) 9"
    by blast
  moreover from fpu_set_leaks [of "0x400" 10 x86_fpu_control_h "0x007F" "0x400"] p q
  have "bit (snd (mIEEE_FPU_fpu_setprec x86_fpu_control_h 0x400 0x007F)) 10"
    by blast
  ultimately show ?thesis
    using m p r q c by blast
qed

text \<open>
  C8. On a header whose rounding mask and precision mask have no bit in common, from
  every control word, \<open>fpu_setprec(FPU_DOUBLE)\<close>, then \<open>fpu_setround(FPU_RC_ZERO)\<close>,
  then \<open>fpu_getprec\<close> returns \<open>FPU_DOUBLE\<close>.
\<close>

theorem fpu_prec_survives_setround:
  assumes "round_mask k AND prec_mask k = 0"
  shows "fst (mIEEE_FPU_fpu_getprec k
           (snd (mIEEE_FPU_fpu_setround k (ucast (FPU_RC_ZERO k))
              (snd (mIEEE_FPU_fpu_setprec k (ucast (FPU_DOUBLE k)) c)))))
         = ucast (FPU_DOUBLE k)"
  using assms
  by (auto simp add: round_mask_def prec_mask_def fpu_defs bit_eq_iff bit_simps
      dest: bit_imp_le_length)

theorem fpu_prec_survives_setround_witness:
  "round_mask x86_fpu_control_h AND prec_mask x86_fpu_control_h = 0
   \<and> ucast (FPU_DOUBLE x86_fpu_control_h) = (0x200 :: cuint)
   \<and> ucast (FPU_RC_ZERO x86_fpu_control_h) = (0xC00 :: cuint)
   \<and> fst (mIEEE_FPU_fpu_getprec x86_fpu_control_h
        (snd (mIEEE_FPU_fpu_setround x86_fpu_control_h 0xC00
           (snd (mIEEE_FPU_fpu_setprec x86_fpu_control_h 0x200 0x037F))))) = 0x200"
proof -
  have d: "round_mask x86_fpu_control_h AND prec_mask x86_fpu_control_h = 0"
    by (simp add: round_mask_x86 prec_mask_x86)
  have k: "ucast (FPU_DOUBLE x86_fpu_control_h) = (0x200 :: cuint)"
    "ucast (FPU_RC_ZERO x86_fpu_control_h) = (0xC00 :: cuint)"
    by (simp_all add: x86_fpu_control_h_def)
  from fpu_prec_survives_setround [OF d, of "0x037F"] d k
  show ?thesis
    by simp
qed

text \<open>
  C10. For every control word and every argument, also one with bits outside the mask,
  the value returned by \<open>fpu_setround\<close> has no bit outside the rounding mask and the
  value returned by \<open>fpu_setprec\<close> has no bit outside the precision mask: each is the
  word read before the write, under the mask.
\<close>

theorem fpu_set_result_masked:
  "fst (mIEEE_FPU_fpu_setround k m c) AND NOT (ucast (round_mask k)) = 0
   \<and> fst (mIEEE_FPU_fpu_setprec k p c) AND NOT (ucast (prec_mask k)) = 0
   \<and> fst (mIEEE_FPU_fpu_setround k m c) = ucast (c AND round_mask k)
   \<and> fst (mIEEE_FPU_fpu_setprec k p c) = ucast (c AND prec_mask k)"
  by (simp add: fpu_defs bit_eq_iff bit_simps)

section \<open>Backend A: the claims\<close>

text \<open>
  C3. Over the C library as the spec describes it, for every mode \<open>m\<close> of the four
  exported rounding constants and every environment, \<open>fegetround\<close> called right after
  \<open>fesetround(m)\<close> returns \<open>m\<close>.
\<close>

theorem fe_round_trip:
  assumes "m \<in> set (fe_round_consts (libc_fenv_h d n z u))"
  shows "fst (mIEEE_FPU_fegetround (libc_fenv_h d n z u)
           (snd (mIEEE_FPU_fesetround (libc_fenv_h d n z u) m env))) = m"
proof -
  from assms
  have "snd (mIEEE_FPU_fesetround (libc_fenv_h d n z u) m env) = env\<lparr>rounding := m\<rparr>"
    by (simp add: libc_fesetround_valid)
  then show ?thesis
    by (simp add: mIEEE_FPU_fegetround_def libc_fenv_h_def)
qed

theorem fe_round_trip_witness:
  "set (fe_round_consts x86_fenv_h) = {0x400, 0x0, 0xC00, 0x800}
   \<and> fst (mIEEE_FPU_fegetround x86_fenv_h
        (snd (mIEEE_FPU_fesetround x86_fenv_h 0x400 \<lparr>rounding = 0\<rparr>))) = 0x400
   \<and> fst (mIEEE_FPU_fegetround x86_fenv_h
        (snd (mIEEE_FPU_fesetround x86_fenv_h 0x0 \<lparr>rounding = 0x400\<rparr>))) = 0x0
   \<and> fst (mIEEE_FPU_fegetround x86_fenv_h
        (snd (mIEEE_FPU_fesetround x86_fenv_h 0xC00 \<lparr>rounding = 0\<rparr>))) = 0xC00
   \<and> fst (mIEEE_FPU_fegetround x86_fenv_h
        (snd (mIEEE_FPU_fesetround x86_fenv_h 0x800 \<lparr>rounding = 0\<rparr>))) = 0x800"
proof -
  have s: "set (fe_round_consts x86_fenv_h) = {0x400, 0x0, 0xC00, 0x800}"
    by (simp add: fe_round_consts_def x86_fenv_h_def libc_fenv_h_def)
  then have down: "0x400 \<in> set (fe_round_consts (libc_fenv_h 0x400 0x0 0xC00 0x800))"
    and nearest: "0x0 \<in> set (fe_round_consts (libc_fenv_h 0x400 0x0 0xC00 0x800))"
    and zero: "0xC00 \<in> set (fe_round_consts (libc_fenv_h 0x400 0x0 0xC00 0x800))"
    and up: "0x800 \<in> set (fe_round_consts (libc_fenv_h 0x400 0x0 0xC00 0x800))"
    by (simp_all add: x86_fenv_h_def)
  show ?thesis
    unfolding x86_fenv_h_def
    using s [unfolded x86_fenv_h_def]
      fe_round_trip [OF down, of "\<lparr>rounding = 0\<rparr>"]
      fe_round_trip [OF nearest, of "\<lparr>rounding = 0x400\<rparr>"]
      fe_round_trip [OF zero, of "\<lparr>rounding = 0\<rparr>"]
      fe_round_trip [OF up, of "\<lparr>rounding = 0\<rparr>"]
    by blast
qed

text \<open>
  C4. \<open>fesetround\<close>, over every platform: for every argument \<open>m\<close> and every environment,
  the environment after the call is the one the platform's \<open>fesetround\<close> leaves when
  given \<open>m\<close>, and the value returned is what \<open>fegetround\<close> returns on that environment.
\<close>

theorem fesetround_requery:
  "snd (mIEEE_FPU_fesetround P m env) = snd (fesetround P m env)
   \<and> fst (mIEEE_FPU_fesetround P m env)
        = fst (mIEEE_FPU_fegetround P (snd (mIEEE_FPU_fesetround P m env)))"
  by (simp add: fe_defs)

text \<open>
  The value returned is not the argument handed back: over the C library as the spec
  describes it, with the x86 constants, a valid mode is installed and returned, and the
  argument \<open>0x123\<close>, which is no mode, is rejected, the call returning the mode that
  stays active.
\<close>

lemma fesetround_not_echo:
  "mIEEE_FPU_fesetround x86_fenv_h 0x800 \<lparr>rounding = 0x400\<rparr> = (0x800, \<lparr>rounding = 0x800\<rparr>)
   \<and> mIEEE_FPU_fesetround x86_fenv_h 0x123 \<lparr>rounding = 0x400\<rparr> = (0x400, \<lparr>rounding = 0x400\<rparr>)"
  by (simp add: fe_defs x86_fenv_h_def libc_fenv_h_def)

section \<open>Both backends: the claims\<close>

text \<open>
  C9. The getters change nothing: for every state, the state after \<open>fegetround\<close>
  (backend A, over every platform), after \<open>fpu_getround\<close> and after \<open>fpu_getprec\<close>
  (backend B) is the state before.
\<close>

theorem getters_keep_state:
  "snd (mIEEE_FPU_fegetround P env) = env
   \<and> snd (mIEEE_FPU_fpu_getround k cw) = cw
   \<and> snd (mIEEE_FPU_fpu_getprec k cw) = cw"
  by (simp add: mIEEE_FPU_fegetround_def fpu_defs)

text \<open>
  C7. Setting the same supported mode \<open>m\<close> again. The state has converged after one call:
  a second call leaves it as it is. The second call returns \<open>m\<close>, from every starting
  state, and so does every call made on a state that the call leaves unchanged.
  Backend A (over the C library as the spec describes it, \<open>m\<close> one of the four exported
  constants) returns \<open>m\<close> from the first call on. Backend B (\<open>m'\<close> one of the four
  exported constants) returns the rounding bits read before the write, which are \<open>m'\<close>
  once the state has converged.
\<close>

theorem set_round_idempotent:
  "(m \<in> set (fe_round_consts (libc_fenv_h d n z u)) \<longrightarrow>
      snd (mIEEE_FPU_fesetround (libc_fenv_h d n z u) m
            (snd (mIEEE_FPU_fesetround (libc_fenv_h d n z u) m env)))
        = snd (mIEEE_FPU_fesetround (libc_fenv_h d n z u) m env)
    \<and> fst (mIEEE_FPU_fesetround (libc_fenv_h d n z u) m env) = m
    \<and> fst (mIEEE_FPU_fesetround (libc_fenv_h d n z u) m
            (snd (mIEEE_FPU_fesetround (libc_fenv_h d n z u) m env))) = m)
   \<and> (m' \<in> set (fpu_round_consts k) \<longrightarrow>
      snd (mIEEE_FPU_fpu_setround k m' (snd (mIEEE_FPU_fpu_setround k m' c)))
        = snd (mIEEE_FPU_fpu_setround k m' c)
    \<and> fst (mIEEE_FPU_fpu_setround k m' (snd (mIEEE_FPU_fpu_setround k m' c))) = m'
    \<and> (snd (mIEEE_FPU_fpu_setround k m' c) = c \<longrightarrow>
         fst (mIEEE_FPU_fpu_setround k m' c) = m'))"
proof (intro conjI impI)
  assume a: "m \<in> set (fe_round_consts (libc_fenv_h d n z u))"
  show "snd (mIEEE_FPU_fesetround (libc_fenv_h d n z u) m
            (snd (mIEEE_FPU_fesetround (libc_fenv_h d n z u) m env)))
        = snd (mIEEE_FPU_fesetround (libc_fenv_h d n z u) m env)"
    using a by (simp add: libc_fesetround_valid)
  show "fst (mIEEE_FPU_fesetround (libc_fenv_h d n z u) m env) = m"
    using a by (simp add: libc_fesetround_valid)
  show "fst (mIEEE_FPU_fesetround (libc_fenv_h d n z u) m
            (snd (mIEEE_FPU_fesetround (libc_fenv_h d n z u) m env))) = m"
    using a by (simp add: libc_fesetround_valid)
next
  show "snd (mIEEE_FPU_fpu_setround k m' (snd (mIEEE_FPU_fpu_setround k m' c)))
        = snd (mIEEE_FPU_fpu_setround k m' c)"
    by (rule setround_state_idem)
next
  assume "m' \<in> set (fpu_round_consts k)"
  then show "fst (mIEEE_FPU_fpu_setround k m' (snd (mIEEE_FPU_fpu_setround k m' c))) = m'"
    by (rule setround_second_result)
next
  assume b: "m' \<in> set (fpu_round_consts k)"
    and fixed: "snd (mIEEE_FPU_fpu_setround k m' c) = c"
  from b have "fst (mIEEE_FPU_fpu_setround k m' (snd (mIEEE_FPU_fpu_setround k m' c))) = m'"
    by (rule setround_second_result)
  with fixed show "fst (mIEEE_FPU_fpu_setround k m' c) = m'"
    by simp
qed

text \<open>
  On the x86 constants, with \<open>m\<close> the mode "upward": backend A from "downward" returns
  \<open>0x800\<close> twice; backend B from the default control word \<open>0x037F\<close> writes \<open>0x0B7F\<close>,
  which a further call leaves unchanged and on which every call returns \<open>0x800\<close>.
\<close>

theorem set_round_idempotent_witness:
  "0x800 \<in> set (fe_round_consts (libc_fenv_h 0x400 0x0 0xC00 0x800))
   \<and> fst (mIEEE_FPU_fesetround (libc_fenv_h 0x400 0x0 0xC00 0x800) 0x800
          \<lparr>rounding = 0x400\<rparr>) = 0x800
   \<and> fst (mIEEE_FPU_fesetround (libc_fenv_h 0x400 0x0 0xC00 0x800) 0x800
          (snd (mIEEE_FPU_fesetround (libc_fenv_h 0x400 0x0 0xC00 0x800) 0x800
             \<lparr>rounding = 0x400\<rparr>))) = 0x800
   \<and> 0x800 \<in> set (fpu_round_consts x86_fpu_control_h)
   \<and> snd (mIEEE_FPU_fpu_setround x86_fpu_control_h 0x800 0x0B7F) = 0x0B7F
   \<and> fst (mIEEE_FPU_fpu_setround x86_fpu_control_h 0x800 0x0B7F) = 0x800
   \<and> fst (mIEEE_FPU_fpu_setround x86_fpu_control_h 0x800
          (snd (mIEEE_FPU_fpu_setround x86_fpu_control_h 0x800 0x037F))) = 0x800"
proof -
  have a: "0x800 \<in> set (fe_round_consts (libc_fenv_h 0x400 0x0 0xC00 0x800))"
    by (simp add: fe_round_consts_def libc_fenv_h_def)
  have b: "0x800 \<in> set (fpu_round_consts x86_fpu_control_h)"
    by (simp add: fpu_round_consts_def x86_fpu_control_h_def)
  have fixed: "snd (mIEEE_FPU_fpu_setround x86_fpu_control_h 0x800 0x0B7F) = 0x0B7F"
    by (simp add: fpu_defs round_mask_x86)
  from set_round_idempotent [of "0x800" "0x400" "0x0" "0xC00" "0x800" "\<lparr>rounding = 0x400\<rparr>"
      "0x800" x86_fpu_control_h "0x0B7F"] a b fixed
  have "fst (mIEEE_FPU_fesetround (libc_fenv_h 0x400 0x0 0xC00 0x800) 0x800
          \<lparr>rounding = 0x400\<rparr>) = 0x800"
    and "fst (mIEEE_FPU_fesetround (libc_fenv_h 0x400 0x0 0xC00 0x800) 0x800
          (snd (mIEEE_FPU_fesetround (libc_fenv_h 0x400 0x0 0xC00 0x800) 0x800
             \<lparr>rounding = 0x400\<rparr>))) = 0x800"
    and "fst (mIEEE_FPU_fpu_setround x86_fpu_control_h 0x800 0x0B7F) = 0x800"
    by blast+
  moreover
  from set_round_idempotent [of "0x800" "0x400" "0x0" "0xC00" "0x800" "\<lparr>rounding = 0x400\<rparr>"
      "0x800" x86_fpu_control_h "0x037F"] b
  have "fst (mIEEE_FPU_fpu_setround x86_fpu_control_h 0x800
          (snd (mIEEE_FPU_fpu_setround x86_fpu_control_h 0x800 0x037F))) = 0x800"
    by blast
  ultimately show ?thesis
    using a b fixed by blast
qed

end
